theory Spec2Isabelle
  imports Complex_Main
begin

section \<open>The cannon simulator of \<^verbatim>\<open>src/main.cpp\<close>\<close>

text \<open>
  The program keeps its state in global variables: the aim of the cannon
  (\<^verbatim>\<open>cannonAngle\<close>, \<^verbatim>\<open>cannonPower\<close>, \<^verbatim>\<open>cannonPosition\<close>), the vector of
  projectiles in flight, the time of the last frame and the fire request. Each frame of the
  main loop reads the keys, fires if requested, updates every active projectile and erases
  the projectiles that are inactive or too old.

  Numbers: the source computes in \<^verbatim>\<open>float\<close>. The model computes in \<^typ>\<open>real\<close>: every
  operation is exact, and rounding, infinities and NaN are not represented. The decimal
  literals of the source (\<^verbatim>\<open>9.81f\<close>, \<^verbatim>\<open>0.7f\<close>, \<^verbatim>\<open>3.14159265359f\<close>) are the
  rationals they spell. The concrete inputs used below to evaluate the program are chosen so
  that the branch taken is the same in \<^verbatim>\<open>float\<close> arithmetic.
\<close>

subsection \<open>Constants\<close>

definition WINDOW_WIDTH :: int where
  "WINDOW_WIDTH = 800"

definition WINDOW_HEIGHT :: int where
  "WINDOW_HEIGHT = 600"

definition GRAVITY :: real where
  "GRAVITY = 9.81"

text \<open>The program's own constant, not the number \<open>\<pi>\<close>.\<close>

definition PI :: real where
  "PI = 3.14159265359"

subsection \<open>Two-dimensional vectors (\<^verbatim>\<open>glm::vec2\<close>)\<close>

record vec2 =
  x :: real
  y :: real

text \<open>\<^verbatim>\<open>a + b\<close>, componentwise.\<close>

definition vec2_add :: "vec2 \<Rightarrow> vec2 \<Rightarrow> vec2" where
  "vec2_add a b = \<lparr>x = x a + x b, y = y a + y b\<rparr>"

text \<open>\<^verbatim>\<open>a * s\<close> for a scalar \<open>s\<close>, componentwise.\<close>

definition vec2_scale :: "vec2 \<Rightarrow> real \<Rightarrow> vec2" where
  "vec2_scale a s = \<lparr>x = x a * s, y = y a * s\<rparr>"

text \<open>\<^verbatim>\<open>glm::length(a)\<close>: the square root of the dot product of \<open>a\<close> with itself.\<close>

definition length_vec2 :: "vec2 \<Rightarrow> real" where
  "length_vec2 a = sqrt (x a * x a + y a * y a)"

subsection \<open>Projectiles\<close>

record Projectile =
  position :: vec2
  velocity :: vec2
  radius :: real
  active :: bool
  timeAlive :: real

text \<open>The constructor: a new projectile is active and has lived for no time.\<close>

definition Projectile_new :: "vec2 \<Rightarrow> vec2 \<Rightarrow> real \<Rightarrow> Projectile" where
  "Projectile_new pos vel r =
     \<lparr>position = pos, velocity = vel, radius = r, active = True, timeAlive = 0\<rparr>"

text \<open>
  \<^verbatim>\<open>Projectile::update\<close> is a sequence of five blocks, each introduced by a comment in the
  source. Every block is one function here, named after its comment, and \<open>update\<close> is
  their composition in the order of the source.
\<close>

text \<open>\<^verbatim>\<open>velocity.y -= GRAVITY * deltaTime;\<close>\<close>

definition apply_gravity :: "real \<Rightarrow> Projectile \<Rightarrow> Projectile" where
  "apply_gravity deltaTime p =
     p\<lparr>velocity := (velocity p)\<lparr>y := y (velocity p) - GRAVITY * deltaTime\<rparr>\<rparr>"

text \<open>\<^verbatim>\<open>position += velocity * deltaTime;\<close>\<close>

definition update_position :: "real \<Rightarrow> Projectile \<Rightarrow> Projectile" where
  "update_position deltaTime p =
     p\<lparr>position := vec2_add (position p) (vec2_scale (velocity p) deltaTime)\<rparr>"

text \<open>\<^verbatim>\<open>timeAlive += deltaTime;\<close>\<close>

definition increase_time :: "real \<Rightarrow> Projectile \<Rightarrow> Projectile" where
  "increase_time deltaTime p = p\<lparr>timeAlive := timeAlive p + deltaTime\<rparr>"

text \<open>
  \<^verbatim>\<open>if (position.y <= radius) { position.y = radius; velocity *= 0.5f;
       if (glm::length(velocity) < 1.0f) active = false;
       else velocity.y = -velocity.y * 0.7f; }\<close>
\<close>

definition ground_collision :: "Projectile \<Rightarrow> Projectile" where
  "ground_collision p =
     (if y (position p) \<le> radius p then
        let p1 = p\<lparr>position := (position p)\<lparr>y := radius p\<rparr>\<rparr>;
            p2 = p1\<lparr>velocity := vec2_scale (velocity p1) 0.5\<rparr>
        in if length_vec2 (velocity p2) < 1 then p2\<lparr>active := False\<rparr>
           else p2\<lparr>velocity := (velocity p2)\<lparr>y := - y (velocity p2) * 0.7\<rparr>\<rparr>
      else p)"

text \<open>
  \<^verbatim>\<open>if (position.x >= WINDOW_WIDTH - radius) { position.x = WINDOW_WIDTH - radius;
       velocity.x *= -0.7f; }\<close>
  The integer \<^verbatim>\<open>WINDOW_WIDTH\<close> is converted to a floating-point number by the subtraction.
\<close>

definition wall_collision :: "Projectile \<Rightarrow> Projectile" where
  "wall_collision p =
     (if x (position p) \<ge> real_of_int WINDOW_WIDTH - radius p then
        let p1 = p\<lparr>position := (position p)\<lparr>x := real_of_int WINDOW_WIDTH - radius p\<rparr>\<rparr>
        in p1\<lparr>velocity := (velocity p1)\<lparr>x := x (velocity p1) * (- 0.7)\<rparr>\<rparr>
      else p)"

text \<open>The first three blocks, which run before the two collision tests.\<close>

definition integrate :: "real \<Rightarrow> Projectile \<Rightarrow> Projectile" where
  "integrate deltaTime p =
     increase_time deltaTime (update_position deltaTime (apply_gravity deltaTime p))"

definition update :: "Projectile \<Rightarrow> real \<Rightarrow> Projectile" where
  "update p deltaTime =
     wall_collision (ground_collision
       (increase_time deltaTime (update_position deltaTime (apply_gravity deltaTime p))))"

subsection \<open>The collection of projectiles\<close>

text \<open>
  The loop of \<^verbatim>\<open>main\<close> over \<^verbatim>\<open>projectiles\<close>: an active projectile is updated in place,
  an inactive one is left as it is.
\<close>

definition step :: "real \<Rightarrow> Projectile list \<Rightarrow> Projectile list" where
  "step deltaTime ps = map (\<lambda>p. if active p then update p deltaTime else p) ps"

text \<open>
  \<^verbatim>\<open>std::remove_if\<close> followed by \<^verbatim>\<open>erase\<close>: the elements on which the predicate is
  false are kept, in their order.
\<close>

fun remove_if :: "('a \<Rightarrow> bool) \<Rightarrow> 'a list \<Rightarrow> 'a list" where
  "remove_if pred [] = []"
| "remove_if pred (a # as) = (if pred a then remove_if pred as else a # remove_if pred as)"

text \<open>The lambda of the source: \<^verbatim>\<open>!p.active || p.timeAlive > 10.0f\<close>.\<close>

definition expired :: "Projectile \<Rightarrow> bool" where
  "expired p = (\<not> active p \<or> timeAlive p > 10)"

definition prune :: "Projectile list \<Rightarrow> Projectile list" where
  "prune ps = remove_if expired ps"

text \<open>\<^verbatim>\<open>projectiles.push_back(projectile)\<close>\<close>

definition insert_projectile :: "Projectile \<Rightarrow> Projectile list \<Rightarrow> Projectile list" where
  "insert_projectile p ps = ps @ [p]"

subsection \<open>The global state, the keys and the frame\<close>

record world =
  cannonAngle :: real
  cannonPower :: real
  cannonPosition :: vec2
  projectiles :: "Projectile list"
  lastFrameTime :: real
  fireCannon :: bool

text \<open>The initial values of the globals.\<close>

definition initial_world :: world where
  "initial_world =
     \<lparr>cannonAngle = 45, cannonPower = 50, cannonPosition = \<lparr>x = 50, y = 50\<rparr>,
      projectiles = [], lastFrameTime = 0, fireCannon = False\<rparr>"

text \<open>
  What \<^verbatim>\<open>glfwGetKey\<close> answers for the four arrow keys when \<^verbatim>\<open>processInput\<close> runs:
  \<open>True\<close> stands for \<^verbatim>\<open>GLFW_PRESS\<close>.
\<close>

record keys =
  KEY_UP :: bool
  KEY_DOWN :: bool
  KEY_RIGHT :: bool
  KEY_LEFT :: bool

text \<open>The four tests of \<^verbatim>\<open>processInput\<close> run one after the other, each on the result of the one before.\<close>

definition processInput :: "keys \<Rightarrow> world \<Rightarrow> world" where
  "processInput ks w =
     (let w1 = (if KEY_UP ks then w\<lparr>cannonAngle := min (cannonAngle w + 1) 90\<rparr> else w);
          w2 = (if KEY_DOWN ks then w1\<lparr>cannonAngle := max (cannonAngle w1 - 1) 0\<rparr> else w1);
          w3 = (if KEY_RIGHT ks then w2\<lparr>cannonPower := min (cannonPower w2 + 1) 100\<rparr> else w2);
          w4 = (if KEY_LEFT ks then w3\<lparr>cannonPower := max (cannonPower w3 - 1) 10\<rparr> else w3)
      in w4)"

text \<open>
  \<^verbatim>\<open>fireProjectile\<close> reads the aim, builds the projectile at the end of the barrel and
  appends it to the collection.
\<close>

definition fireProjectile :: "world \<Rightarrow> world" where
  "fireProjectile w =
     (let radianAngle = cannonAngle w * PI / 180;
          initialVelocity = \<lparr>x = cannonPower w * cos radianAngle,
                             y = cannonPower w * sin radianAngle\<rparr>;
          barrelEnd = \<lparr>x = x (cannonPosition w) + 40 * cos radianAngle,
                       y = y (cannonPosition w) + 40 * sin radianAngle\<rparr>;
          projectile = Projectile_new barrelEnd initialVelocity 5
      in w\<lparr>projectiles := insert_projectile projectile (projectiles w)\<rparr>)"

text \<open>
  The body of the main loop up to the drawing calls, which only read the state.
  \<open>currentTime\<close> is what \<^verbatim>\<open>glfwGetTime\<close> returns, \<open>ks\<close> the state of the arrow keys.
\<close>

definition frame :: "real \<Rightarrow> keys \<Rightarrow> world \<Rightarrow> world" where
  "frame currentTime ks w =
     (let deltaTime = currentTime - lastFrameTime w;
          w1 = w\<lparr>lastFrameTime := currentTime\<rparr>;
          w2 = processInput ks w1;
          w3 = (if fireCannon w2 then (fireProjectile w2)\<lparr>fireCannon := False\<rparr> else w2);
          w4 = w3\<lparr>projectiles := step deltaTime (projectiles w3)\<rparr>
      in w4\<lparr>projectiles := prune (projectiles w4)\<rparr>)"

text \<open>
  A run of \<^verbatim>\<open>processInput\<close> calls, one per frame, each with its own state of the keys.
\<close>

fun run_inputs :: "keys list \<Rightarrow> world \<Rightarrow> world" where
  "run_inputs [] w = w"
| "run_inputs (ks # kss) w = run_inputs kss (processInput ks w)"

text \<open>The ranges of the aim: the angle in \<open>[0, 90]\<close>, the power in \<open>[10, 100]\<close>.\<close>

definition aim_in_range :: "world \<Rightarrow> bool" where
  "aim_in_range w =
     (0 \<le> cannonAngle w \<and> cannonAngle w \<le> 90 \<and> 10 \<le> cannonPower w \<and> cannonPower w \<le> 100)"

section \<open>Properties\<close>

subsection \<open>Evaluating the blocks of \<open>update\<close>\<close>

lemma update_integrate:
  "update p deltaTime = wall_collision (ground_collision (integrate deltaTime p))"
  by (simp add: update_def integrate_def)

lemma integrate_fields:
  "integrate deltaTime p =
     p\<lparr>velocity := \<lparr>x = x (velocity p), y = y (velocity p) - GRAVITY * deltaTime\<rparr>,
       position := \<lparr>x = x (position p) + x (velocity p) * deltaTime,
                    y = y (position p) + (y (velocity p) - GRAVITY * deltaTime) * deltaTime\<rparr>,
       timeAlive := timeAlive p + deltaTime\<rparr>"
  by (simp add: integrate_def increase_time_def update_position_def apply_gravity_def
      vec2_add_def vec2_scale_def)

lemma step_nth:
  "i < length ps \<Longrightarrow>
     step deltaTime ps ! i = (if active (ps ! i) then update (ps ! i) deltaTime else ps ! i)"
  by (simp add: step_def)

lemma length_step: "length (step deltaTime ps) = length ps"
  by (simp add: step_def)

lemma ground_collision_hit:
  assumes "y (position q) \<le> radius q"
  shows "ground_collision q =
     (if length_vec2 \<lparr>x = 0.5 * x (velocity q), y = 0.5 * y (velocity q)\<rparr> < 1
      then q\<lparr>position := \<lparr>x = x (position q), y = radius q\<rparr>,
             velocity := \<lparr>x = 0.5 * x (velocity q), y = 0.5 * y (velocity q)\<rparr>,
             active := False\<rparr>
      else q\<lparr>position := \<lparr>x = x (position q), y = radius q\<rparr>,
             velocity := \<lparr>x = 0.5 * x (velocity q), y = - 0.35 * y (velocity q)\<rparr>\<rparr>)"
  using assms by (simp add: ground_collision_def Let_def vec2_scale_def)

lemma ground_collision_miss:
  "\<not> y (position q) \<le> radius q \<Longrightarrow> ground_collision q = q"
  by (simp add: ground_collision_def)

lemma wall_collision_hit:
  assumes "x (position q) \<ge> 800 - radius q"
  shows "wall_collision q =
     q\<lparr>position := \<lparr>x = 800 - radius q, y = y (position q)\<rparr>,
       velocity := \<lparr>x = - 0.7 * x (velocity q), y = y (velocity q)\<rparr>\<rparr>"
  using assms by (simp add: wall_collision_def Let_def WINDOW_WIDTH_def)

lemma wall_collision_miss:
  "\<not> x (position q) \<ge> 800 - radius q \<Longrightarrow> wall_collision q = q"
  by (simp add: wall_collision_def WINDOW_WIDTH_def)

lemma wall_collision_keeps:
  "y (position (wall_collision q)) = y (position q) \<and>
   y (velocity (wall_collision q)) = y (velocity q) \<and>
   radius (wall_collision q) = radius q \<and>
   active (wall_collision q) = active q \<and>
   timeAlive (wall_collision q) = timeAlive q"
  by (simp add: wall_collision_def Let_def)

lemma ground_collision_keeps:
  "x (position (ground_collision q)) = x (position q) \<and>
   radius (ground_collision q) = radius q \<and>
   timeAlive (ground_collision q) = timeAlive q"
  by (simp add: ground_collision_def Let_def)

subsection \<open>Integration\<close>

text \<open>
  C1. For every active projectile of the collection and every \<open>deltaTime\<close>, \<open>step\<close> first
  subtracts \<open>GRAVITY * deltaTime\<close> (\<open>GRAVITY = 9.81\<close>) from \<open>velocity.y\<close>, then adds the
  updated velocity times \<open>deltaTime\<close> to the position, then adds \<open>deltaTime\<close> to
  \<open>timeAlive\<close>; the two collision tests run on the result of these three updates.
\<close>

theorem step_integration_order:
  assumes "i < length ps" and "ps ! i = p" and "active p"
  shows "GRAVITY = 9.81 \<and>
     velocity (apply_gravity deltaTime p) =
       \<lparr>x = x (velocity p), y = y (velocity p) - GRAVITY * deltaTime\<rparr> \<and>
     position (update_position deltaTime (apply_gravity deltaTime p)) =
       \<lparr>x = x (position p) + x (velocity (apply_gravity deltaTime p)) * deltaTime,
        y = y (position p) + y (velocity (apply_gravity deltaTime p)) * deltaTime\<rparr> \<and>
     integrate deltaTime p =
       p\<lparr>velocity := \<lparr>x = x (velocity p), y = y (velocity p) - GRAVITY * deltaTime\<rparr>,
         position := \<lparr>x = x (position p) + x (velocity p) * deltaTime,
                      y = y (position p) + (y (velocity p) - GRAVITY * deltaTime) * deltaTime\<rparr>,
         timeAlive := timeAlive p + deltaTime\<rparr> \<and>
     step deltaTime ps ! i = wall_collision (ground_collision (integrate deltaTime p))"
proof -
  have "step deltaTime ps ! i = update p deltaTime"
    using assms by (simp add: step_nth)
  moreover have "velocity (apply_gravity deltaTime p) =
       \<lparr>x = x (velocity p), y = y (velocity p) - GRAVITY * deltaTime\<rparr>"
    by (simp add: apply_gravity_def)
  moreover have "position (update_position deltaTime (apply_gravity deltaTime p)) =
       \<lparr>x = x (position p) + x (velocity (apply_gravity deltaTime p)) * deltaTime,
        y = y (position p) + y (velocity (apply_gravity deltaTime p)) * deltaTime\<rparr>"
    by (simp add: update_position_def apply_gravity_def vec2_add_def vec2_scale_def)
  ultimately show ?thesis
    using integrate_fields [of deltaTime p]
    by (simp add: update_integrate GRAVITY_def)
qed

theorem step_integration_order_witness:
  "step 1 [\<lparr>position = \<lparr>x = 100, y = 200\<rparr>, velocity = \<lparr>x = 10, y = 20\<rparr>,
            radius = 5, active = True, timeAlive = 2\<rparr>] ! 0 =
     \<lparr>position = \<lparr>x = 110, y = 210.19\<rparr>, velocity = \<lparr>x = 10, y = 10.19\<rparr>,
      radius = 5, active = True, timeAlive = 3\<rparr>"
  using step_integration_order [of 0
      "[\<lparr>position = \<lparr>x = 100, y = 200\<rparr>, velocity = \<lparr>x = 10, y = 20\<rparr>,
         radius = 5, active = True, timeAlive = 2\<rparr>]"
      "\<lparr>position = \<lparr>x = 100, y = 200\<rparr>, velocity = \<lparr>x = 10, y = 20\<rparr>,
        radius = 5, active = True, timeAlive = 2\<rparr>" 1]
  by (simp add: ground_collision_def wall_collision_def WINDOW_WIDTH_def)

subsection \<open>The ground\<close>

text \<open>
  C2. In the ground test of \<open>step\<close>: for every active projectile whose position after the
  integration has \<open>position.y \<le> radius\<close>, \<open>position.y\<close> becomes \<open>radius\<close> and both
  components of the velocity are halved. If the magnitude of the halved velocity, the
  square root of the sum of the squares of its components, is below 1 (that is, if the
  squares of the components before halving sum to less than 4), the projectile becomes
  inactive and keeps the halved velocity; otherwise \<open>velocity.y\<close> is replaced by
  \<open>- velocity.y * 0.7\<close>, so that \<open>velocity.y\<close> is \<open>- 0.35\<close> times and \<open>velocity.x\<close> is
  \<open>0.5\<close> times its value before the ground contact, and the projectile stays active. The
  wall test, which runs next, leaves \<open>position.y\<close>, \<open>velocity.y\<close> and \<open>active\<close> as the
  ground test set them.
\<close>

theorem step_ground_collision:
  assumes "i < length ps" and "ps ! i = p" and "active p"
    and "q = integrate deltaTime p" and "y (position q) \<le> radius q"
  shows "step deltaTime ps ! i = wall_collision (ground_collision q) \<and>
     position (ground_collision q) = \<lparr>x = x (position q), y = radius q\<rparr> \<and>
     (if sqrt ((0.5 * x (velocity q)) * (0.5 * x (velocity q)) +
               (0.5 * y (velocity q)) * (0.5 * y (velocity q))) < 1
      then \<not> active (ground_collision q) \<and>
           velocity (ground_collision q) =
             \<lparr>x = 0.5 * x (velocity q), y = 0.5 * y (velocity q)\<rparr>
      else active (ground_collision q) \<and>
           velocity (ground_collision q) =
             \<lparr>x = 0.5 * x (velocity q), y = - 0.35 * y (velocity q)\<rparr>) \<and>
     y (position (step deltaTime ps ! i)) = radius p \<and>
     y (velocity (step deltaTime ps ! i)) =
       (if sqrt ((0.5 * x (velocity q)) * (0.5 * x (velocity q)) +
                 (0.5 * y (velocity q)) * (0.5 * y (velocity q))) < 1
        then 0.5 * y (velocity q) else - 0.35 * y (velocity q)) \<and>
     active (step deltaTime ps ! i) =
       (\<not> sqrt ((0.5 * x (velocity q)) * (0.5 * x (velocity q)) +
                 (0.5 * y (velocity q)) * (0.5 * y (velocity q))) < 1) \<and>
     (sqrt ((0.5 * x (velocity q)) * (0.5 * x (velocity q)) +
            (0.5 * y (velocity q)) * (0.5 * y (velocity q))) < 1) =
       (x (velocity q) * x (velocity q) + y (velocity q) * y (velocity q) < 4)"
proof -
  have s: "step deltaTime ps ! i = wall_collision (ground_collision q)"
    using assms by (simp add: step_nth update_integrate)
  have q: "active q" "radius q = radius p"
    using assms by (simp_all add: integrate_fields)
  have l: "length_vec2 \<lparr>x = 0.5 * x (velocity q), y = 0.5 * y (velocity q)\<rparr> =
      sqrt ((0.5 * x (velocity q)) * (0.5 * x (velocity q)) +
            (0.5 * y (velocity q)) * (0.5 * y (velocity q)))"
    by (simp add: length_vec2_def)
  note g = ground_collision_hit [OF assms(5), unfolded l]
  have e: "(sqrt ((0.5 * x (velocity q)) * (0.5 * x (velocity q)) +
            (0.5 * y (velocity q)) * (0.5 * y (velocity q))) < 1) =
       (x (velocity q) * x (velocity q) + y (velocity q) * y (velocity q) < 4)"
    by simp argo
  show ?thesis
    unfolding s using q e by (simp add: wall_collision_keeps g)
qed

theorem step_ground_collision_witness:
  "step 1 [\<lparr>position = \<lparr>x = 100, y = 5\<rparr>, velocity = \<lparr>x = 6, y = - 8\<rparr>,
            radius = 5, active = True, timeAlive = 0\<rparr>] ! 0 =
     \<lparr>position = \<lparr>x = 106, y = 5\<rparr>, velocity = \<lparr>x = 3, y = 6.2335\<rparr>,
      radius = 5, active = True, timeAlive = 1\<rparr> \<and>
   step (1/64) [\<lparr>position = \<lparr>x = 100, y = 5\<rparr>, velocity = \<lparr>x = 1/2, y = - (1/2)\<rparr>,
            radius = 5, active = True, timeAlive = 0\<rparr>] ! 0 =
     \<lparr>position = \<lparr>x = 100.0078125, y = 5\<rparr>, velocity = \<lparr>x = 0.25, y = - 0.326640625\<rparr>,
      radius = 5, active = False, timeAlive = 1/64\<rparr>"
proof -
  let ?p = "\<lparr>position = \<lparr>x = 100, y = 5\<rparr>, velocity = \<lparr>x = 6, y = - 8\<rparr>,
             radius = 5, active = True, timeAlive = 0\<rparr>"
  let ?r = "\<lparr>position = \<lparr>x = 100, y = 5\<rparr>, velocity = \<lparr>x = 1/2, y = - (1/2)\<rparr>,
             radius = 5, active = True, timeAlive = 0\<rparr>"
  have i: "integrate 1 ?p = \<lparr>position = \<lparr>x = 106, y = - 12.81\<rparr>, velocity = \<lparr>x = 6, y = - 17.81\<rparr>,
             radius = 5, active = True, timeAlive = 1\<rparr>"
    by (simp add: integrate_fields GRAVITY_def)
  have a: "step 1 [?p] ! 0 = \<lparr>position = \<lparr>x = 106, y = 5\<rparr>, velocity = \<lparr>x = 3, y = 6.2335\<rparr>,
      radius = 5, active = True, timeAlive = 1\<rparr>"
    using step_ground_collision [of 0 "[?p]" ?p "integrate 1 ?p" 1]
    by (simp add: i ground_collision_def wall_collision_def WINDOW_WIDTH_def vec2_scale_def
        length_vec2_def)
  have b: "step (1/64) [?r] ! 0 =
     \<lparr>position = \<lparr>x = 100.0078125, y = 5\<rparr>, velocity = \<lparr>x = 0.25, y = - 0.326640625\<rparr>,
      radius = 5, active = False, timeAlive = 1/64\<rparr>"
    using step_ground_collision [of 0 "[?r]" ?r "integrate (1/64) ?r" "1/64"]
    by (simp add: integrate_fields GRAVITY_def ground_collision_def wall_collision_def
        WINDOW_WIDTH_def vec2_scale_def length_vec2_def)
  show ?thesis
    using a b by simp
qed

subsection \<open>The wall\<close>

text \<open>
  C3. In the wall test of \<open>step\<close>: for every active projectile whose position, after the
  integration and the ground test, has \<open>position.x \<ge> WINDOW_WIDTH - radius\<close>
  (\<open>WINDOW_WIDTH = 800\<close>), \<open>position.x\<close> becomes \<open>WINDOW_WIDTH - radius\<close> and
  \<open>velocity.x\<close> is multiplied by \<open>- 0.7\<close>; nothing else changes. The ground test changes
  neither \<open>position.x\<close> nor \<open>radius\<close>, so the outcome of the wall test does not depend on
  it, and when the ground test applied as well, the same call of \<open>step\<close> leaves the
  projectile at \<open>(WINDOW_WIDTH - radius, radius)\<close> with \<open>velocity.x\<close> scaled by
  \<open>0.5\<close> and then by \<open>- 0.7\<close>.
\<close>

theorem step_wall_collision:
  assumes "i < length ps" and "ps ! i = p" and "active p"
    and "r = integrate deltaTime p" and "q = ground_collision r"
    and "x (position q) \<ge> real_of_int WINDOW_WIDTH - radius q"
  shows "real_of_int WINDOW_WIDTH = 800 \<and>
     step deltaTime ps ! i = wall_collision q \<and>
     wall_collision q =
       q\<lparr>position := \<lparr>x = 800 - radius q, y = y (position q)\<rparr>,
         velocity := \<lparr>x = - 0.7 * x (velocity q), y = y (velocity q)\<rparr>\<rparr> \<and>
     x (position q) = x (position r) \<and> radius q = radius r \<and>
     (y (position r) \<le> radius r \<longrightarrow>
        position (step deltaTime ps ! i) = \<lparr>x = 800 - radius p, y = radius p\<rparr> \<and>
        x (velocity (step deltaTime ps ! i)) = - 0.35 * x (velocity r))"
proof -
  have w: "real_of_int WINDOW_WIDTH = 800"
    by (simp add: WINDOW_WIDTH_def)
  have s: "step deltaTime ps ! i = wall_collision q"
    using assms by (simp add: step_nth update_integrate)
  have h: "x (position q) \<ge> 800 - radius q"
    using assms(6) by (simp add: w)
  have k: "x (position q) = x (position r)" "radius q = radius r"
    using assms(5) by (simp_all add: ground_collision_keeps)
  have rp: "radius r = radius p"
    using assms(4) by (simp add: integrate_fields)
  have c: "position (wall_collision q) = \<lparr>x = 800 - radius p, y = radius p\<rparr> \<and>
      x (velocity (wall_collision q)) = - 0.35 * x (velocity r)"
    if "y (position r) \<le> radius r"
  proof -
    have "y (position q) = radius r" "x (velocity q) = 0.5 * x (velocity r)"
      unfolding assms(5) ground_collision_hit [OF that] by simp_all
    then show ?thesis
      using k rp by (simp add: wall_collision_hit [OF h])
  qed
  show ?thesis
    using w s k c wall_collision_hit [OF h] by simp
qed

theorem step_wall_collision_witness:
  "step 1 [\<lparr>position = \<lparr>x = 796, y = 5\<rparr>, velocity = \<lparr>x = 10, y = - 10\<rparr>,
            radius = 5, active = True, timeAlive = 0\<rparr>] ! 0 =
     \<lparr>position = \<lparr>x = 795, y = 5\<rparr>, velocity = \<lparr>x = - 3.5, y = 6.9335\<rparr>,
      radius = 5, active = True, timeAlive = 1\<rparr>"
proof -
  let ?p = "\<lparr>position = \<lparr>x = 796, y = 5\<rparr>, velocity = \<lparr>x = 10, y = - 10\<rparr>,
             radius = 5, active = True, timeAlive = 0\<rparr>"
  have i: "integrate 1 ?p = \<lparr>position = \<lparr>x = 806, y = - 14.81\<rparr>, velocity = \<lparr>x = 10, y = - 19.81\<rparr>,
             radius = 5, active = True, timeAlive = 1\<rparr>"
    by (simp add: integrate_fields GRAVITY_def)
  have l: "\<not> length_vec2 \<lparr>x = 5, y = - 9.905\<rparr> < 1"
    by (simp add: length_vec2_def)
  have g: "ground_collision (integrate 1 ?p) =
      \<lparr>position = \<lparr>x = 806, y = 5\<rparr>, velocity = \<lparr>x = 5, y = 6.9335\<rparr>,
             radius = 5, active = True, timeAlive = 1\<rparr>"
    using l by (simp add: i ground_collision_def vec2_scale_def)
  show ?thesis
    using step_wall_collision [of 0 "[?p]" ?p "integrate 1 ?p" 1 "ground_collision (integrate 1 ?p)"]
    by (simp add: g WINDOW_WIDTH_def)
qed

subsection \<open>Pruning\<close>

lemma remove_if_filter: "remove_if pred xs = filter (\<lambda>a. \<not> pred a) xs"
  by (induction xs) simp_all

text \<open>
  C4. \<open>prune\<close> removes exactly the projectiles that are inactive or have
  \<open>timeAlive > 10\<close>, and keeps the others in their order: a projectile with
  \<open>timeAlive = 10.01\<close> is removed whatever its \<open>active\<close> flag, and no projectile that is
  active with \<open>timeAlive \<le> 10\<close> is removed.
\<close>

theorem prune_removes_exactly:
  "prune ps = filter (\<lambda>p. active p \<and> timeAlive p \<le> 10) ps \<and>
   set ps - set (prune ps) = {p \<in> set ps. \<not> active p \<or> timeAlive p > 10} \<and>
   (timeAlive p = 10.01 \<longrightarrow> p \<notin> set (prune ps)) \<and>
   (p \<in> set ps \<and> active p \<and> timeAlive p \<le> 10 \<longrightarrow> p \<in> set (prune ps))"
proof -
  have f: "prune ps = filter (\<lambda>p. active p \<and> timeAlive p \<le> 10) ps"
    by (simp add: prune_def remove_if_filter expired_def not_less)
  show ?thesis
    unfolding f by auto
qed

theorem prune_removes_exactly_witness:
  "prune [\<lparr>position = \<lparr>x = 1, y = 5\<rparr>, velocity = \<lparr>x = 0, y = 0\<rparr>,
            radius = 5, active = True, timeAlive = 10.01\<rparr>,
          \<lparr>position = \<lparr>x = 2, y = 5\<rparr>, velocity = \<lparr>x = 0, y = 0\<rparr>,
            radius = 5, active = True, timeAlive = 10\<rparr>,
          \<lparr>position = \<lparr>x = 3, y = 5\<rparr>, velocity = \<lparr>x = 0, y = 0\<rparr>,
            radius = 5, active = False, timeAlive = 1\<rparr>] =
     [\<lparr>position = \<lparr>x = 2, y = 5\<rparr>, velocity = \<lparr>x = 0, y = 0\<rparr>,
            radius = 5, active = True, timeAlive = 10\<rparr>]"
  using prune_removes_exactly [of
     "[\<lparr>position = \<lparr>x = 1, y = 5\<rparr>, velocity = \<lparr>x = 0, y = 0\<rparr>,
            radius = 5, active = True, timeAlive = 10.01\<rparr>,
          \<lparr>position = \<lparr>x = 2, y = 5\<rparr>, velocity = \<lparr>x = 0, y = 0\<rparr>,
            radius = 5, active = True, timeAlive = 10\<rparr>,
          \<lparr>position = \<lparr>x = 3, y = 5\<rparr>, velocity = \<lparr>x = 0, y = 0\<rparr>,
            radius = 5, active = False, timeAlive = 1\<rparr>]"
     "\<lparr>position = \<lparr>x = 2, y = 5\<rparr>, velocity = \<lparr>x = 0, y = 0\<rparr>,
            radius = 5, active = True, timeAlive = 10\<rparr>"]
  by simp

subsection \<open>Firing\<close>

text \<open>
  The number \<open>\<pi>\<close> lies between two of its continued-fraction convergents: the sine is
  positive at the lower one and negative at the upper one, by its Taylor polynomial of
  degree 23 and the bound on the remainder.
\<close>

lemma sin_poly_pos:
  "0 < (\<Sum>m<24. sin_coeff m * (103993 / 33102 :: real) ^ m)
       - inverse (fact 24) * \<bar>103993 / 33102\<bar> ^ 24"
  by (simp add: sin_coeff_def lessThan_nat_numeral lessThan_Suc fact_numeral power_divide)

lemma sin_poly_neg:
  "(\<Sum>m<24. sin_coeff m * (104348 / 33215 :: real) ^ m)
     + inverse (fact 24) * \<bar>104348 / 33215\<bar> ^ 24 < 0"
  by (simp add: sin_coeff_def lessThan_nat_numeral lessThan_Suc fact_numeral power_divide)

lemma pi_lower: "103993 / 33102 < pi"
proof (rule ccontr)
  assume n: "\<not> 103993 / 33102 < pi"
  have "0 < sin (103993 / 33102 :: real)"
    using Maclaurin_sin_bound [of "103993 / 33102" 24] sin_poly_pos by linarith
  moreover have "sin (103993 / 33102 :: real) \<le> 0"
  proof (rule sin_le_zero)
    show "pi \<le> 103993 / 33102"
      using n by simp
    show "(103993 / 33102 :: real) < 2 * pi"
      using pi_ge_two by simp
  qed
  ultimately show False
    by simp
qed

lemma pi_upper: "pi < 104348 / 33215"
proof (rule ccontr)
  assume n: "\<not> pi < 104348 / 33215"
  have "sin (104348 / 33215 :: real) < 0"
    using Maclaurin_sin_bound [of "104348 / 33215" 24] sin_poly_neg by linarith
  moreover have "0 \<le> sin (104348 / 33215 :: real)"
    using n by (intro sin_ge_zero) simp_all
  ultimately show False
    by simp
qed

lemma PI_near_pi: "\<bar>PI - pi\<bar> < 1 / 10 ^ 7"
proof -
  have "(314159265301 / 100000000000 :: real) < 103993 / 33102"
    and "104348 / 33215 < (314159265393 / 100000000000 :: real)"
    by simp_all
  then have "\<bar>314159265359 / 100000000000 - pi\<bar> < 1 / 10000000"
    using pi_lower pi_upper by linarith
  then show ?thesis
    by (simp add: PI_def)
qed

lemma cos_lipschitz: "\<bar>cos u - cos v\<bar> \<le> \<bar>u - v\<bar>" for u v :: real
proof -
  have "\<bar>cos u - cos v\<bar> = 2 * \<bar>sin ((u + v) / 2)\<bar> * \<bar>sin ((v - u) / 2)\<bar>"
    by (simp add: cos_diff_cos abs_mult)
  also have "\<dots> \<le> 2 * 1 * \<bar>(v - u) / 2\<bar>"
    by (intro mult_mono abs_sin_x_le_abs_x) simp_all
  finally show ?thesis
    by simp
qed

lemma sin_lipschitz: "\<bar>sin u - sin v\<bar> \<le> \<bar>u - v\<bar>" for u v :: real
proof -
  have "\<bar>sin u - sin v\<bar> = 2 * \<bar>sin ((u - v) / 2)\<bar> * \<bar>cos ((u + v) / 2)\<bar>"
    by (simp add: sin_diff_sin abs_mult)
  also have "\<dots> \<le> 2 * \<bar>(u - v) / 2\<bar> * 1"
    by (intro mult_mono abs_sin_x_le_abs_x) simp_all
  finally show ?thesis
    by simp
qed

lemma radians_near:
  "\<bar>a * PI / 180 - a * pi / 180\<bar> \<le> \<bar>a\<bar> / (180 * 10 ^ 7)"
proof -
  have "\<bar>a * PI / 180 - a * pi / 180\<bar> = \<bar>a\<bar> * \<bar>PI - pi\<bar> / 180"
    by (simp add: abs_mult flip: right_diff_distrib diff_divide_distrib)
  also have "\<dots> \<le> \<bar>a\<bar> * (1 / 10 ^ 7) / 180"
    using PI_near_pi by (intro divide_right_mono mult_left_mono) simp_all
  finally show ?thesis
    by simp
qed

text \<open>
  C5. The projectile that \<^verbatim>\<open>fireProjectile\<close> builds is a function of the aim alone: with
  the angle \<open>\<theta>\<close> in degrees, \<open>radians = \<theta> * PI / 180\<close> and the power \<open>p\<close>, its position
  is \<open>cannonPosition + 40 * (cos radians, sin radians)\<close>, its velocity
  \<open>p * (cos radians, sin radians)\<close>, its radius 5, it is active and its \<open>timeAlive\<close> is 0.
  \<^verbatim>\<open>fireProjectile\<close> appends it to the collection and changes nothing else.
  \<open>PI\<close> is the constant \<open>3.14159265359\<close> of the program, which differs from \<open>\<pi>\<close> by
  less than \<open>10\<^sup>-\<^sup>7\<close>, so the cosine and the sine used differ from those of
  \<open>\<theta> * \<pi> / 180\<close> by at most \<open>\<bar>\<theta>\<bar> / (180 * 10\<^sup>7)\<close>. With angle 0 and power 50 the
  velocity is \<open>(50, 0)\<close>; with angle 90 and power 50 it is \<open>(0, 50)\<close> up to
  \<open>10\<^sup>-\<^sup>5\<close> in each component.
\<close>

theorem fireProjectile_projectile:
  "PI = 3.14159265359 \<and> \<bar>PI - pi\<bar> < 1 / 10 ^ 7 \<and>
   fireProjectile w =
     w\<lparr>projectiles := projectiles w @
        [\<lparr>position = \<lparr>x = x (cannonPosition w) + 40 * cos (cannonAngle w * PI / 180),
                       y = y (cannonPosition w) + 40 * sin (cannonAngle w * PI / 180)\<rparr>,
          velocity = \<lparr>x = cannonPower w * cos (cannonAngle w * PI / 180),
                       y = cannonPower w * sin (cannonAngle w * PI / 180)\<rparr>,
          radius = 5, active = True, timeAlive = 0\<rparr>]\<rparr> \<and>
   \<bar>cos (cannonAngle w * PI / 180) - cos (cannonAngle w * pi / 180)\<bar>
     \<le> \<bar>cannonAngle w\<bar> / (180 * 10 ^ 7) \<and>
   \<bar>sin (cannonAngle w * PI / 180) - sin (cannonAngle w * pi / 180)\<bar>
     \<le> \<bar>cannonAngle w\<bar> / (180 * 10 ^ 7) \<and>
   (cannonAngle w = 0 \<and> cannonPower w = 50 \<longrightarrow>
      velocity (last (projectiles (fireProjectile w))) = \<lparr>x = 50, y = 0\<rparr>) \<and>
   (cannonAngle w = 90 \<and> cannonPower w = 50 \<longrightarrow>
      \<bar>x (velocity (last (projectiles (fireProjectile w))))\<bar> < 1 / 10 ^ 5 \<and>
      \<bar>y (velocity (last (projectiles (fireProjectile w)))) - 50\<bar> < 1 / 10 ^ 5)"
proof -
  have f: "fireProjectile w =
     w\<lparr>projectiles := projectiles w @
        [\<lparr>position = \<lparr>x = x (cannonPosition w) + 40 * cos (cannonAngle w * PI / 180),
                       y = y (cannonPosition w) + 40 * sin (cannonAngle w * PI / 180)\<rparr>,
          velocity = \<lparr>x = cannonPower w * cos (cannonAngle w * PI / 180),
                       y = cannonPower w * sin (cannonAngle w * PI / 180)\<rparr>,
          radius = 5, active = True, timeAlive = 0\<rparr>]\<rparr>"
    by (simp add: fireProjectile_def Let_def Projectile_new_def insert_projectile_def)
  have c: "\<bar>cos (a * PI / 180) - cos (a * pi / 180)\<bar> \<le> \<bar>a\<bar> / (180 * 10 ^ 7)" for a
    using cos_lipschitz [of "a * PI / 180" "a * pi / 180"] radians_near [of a] by linarith
  have s: "\<bar>sin (a * PI / 180) - sin (a * pi / 180)\<bar> \<le> \<bar>a\<bar> / (180 * 10 ^ 7)" for a
    using sin_lipschitz [of "a * PI / 180" "a * pi / 180"] radians_near [of a] by linarith
  have z: "velocity (last (projectiles (fireProjectile w))) = \<lparr>x = 50, y = 0\<rparr>"
    if "cannonAngle w = 0 \<and> cannonPower w = 50"
    using that by (simp add: f)
  have n: "\<bar>x (velocity (last (projectiles (fireProjectile w))))\<bar> < 1 / 10 ^ 5 \<and>
      \<bar>y (velocity (last (projectiles (fireProjectile w)))) - 50\<bar> < 1 / 10 ^ 5"
    if "cannonAngle w = 90 \<and> cannonPower w = 50"
  proof -
    have "\<bar>cos (90 * PI / 180) - cos (pi / 2)\<bar> \<le> 90 / (180 * 10 ^ 7)"
      using c [of 90] by simp
    then have "\<bar>50 * cos (90 * PI / 180)\<bar> < 1 / 10 ^ 5"
      by simp
    moreover have "\<bar>sin (90 * PI / 180) - sin (pi / 2)\<bar> \<le> 90 / (180 * 10 ^ 7)"
      using s [of 90] by simp
    then have "\<bar>50 * sin (90 * PI / 180) - 50\<bar> < 1 / 10 ^ 5"
      by simp
    ultimately show ?thesis
      using that by (simp add: f)
  qed
  show ?thesis
    using f c [of "cannonAngle w"] s [of "cannonAngle w"] z n PI_near_pi
    by (simp add: PI_def)
qed

theorem fireProjectile_projectile_witness:
  "velocity (last (projectiles (fireProjectile (initial_world\<lparr>cannonAngle := 0\<rparr>)))) =
     \<lparr>x = 50, y = 0\<rparr> \<and>
   position (last (projectiles (fireProjectile (initial_world\<lparr>cannonAngle := 0\<rparr>)))) =
     \<lparr>x = 90, y = 50\<rparr> \<and>
   \<bar>x (velocity (last (projectiles (fireProjectile (initial_world\<lparr>cannonAngle := 90\<rparr>)))))\<bar>
     < 1 / 10 ^ 5 \<and>
   \<bar>y (velocity (last (projectiles (fireProjectile (initial_world\<lparr>cannonAngle := 90\<rparr>))))) - 50\<bar>
     < 1 / 10 ^ 5"
proof -
  note z = fireProjectile_projectile [of "initial_world\<lparr>cannonAngle := 0\<rparr>"]
  note n = fireProjectile_projectile [of "initial_world\<lparr>cannonAngle := 90\<rparr>"]
  have "cannonAngle (initial_world\<lparr>cannonAngle := 90\<rparr>) = 90 \<and>
      cannonPower (initial_world\<lparr>cannonAngle := 90\<rparr>) = 50"
    by (simp add: initial_world_def)
  then have "\<bar>x (velocity (last (projectiles
        (fireProjectile (initial_world\<lparr>cannonAngle := 90\<rparr>)))))\<bar> < 1 / 10 ^ 5 \<and>
      \<bar>y (velocity (last (projectiles
        (fireProjectile (initial_world\<lparr>cannonAngle := 90\<rparr>))))) - 50\<bar> < 1 / 10 ^ 5"
    using n by blast
  moreover
  have "velocity (last (projectiles (fireProjectile (initial_world\<lparr>cannonAngle := 0\<rparr>)))) =
     \<lparr>x = 50, y = 0\<rparr> \<and>
   position (last (projectiles (fireProjectile (initial_world\<lparr>cannonAngle := 0\<rparr>)))) =
     \<lparr>x = 90, y = 50\<rparr>"
    using z by (simp add: initial_world_def)
  ultimately show ?thesis
    by blast
qed

subsection \<open>The clamps\<close>

text \<open>
  C7, as stated: after every call of \<open>update\<close>, with no precondition on the state before,
  \<open>radius > 0\<close>, \<open>position.y \<ge> radius\<close> and \<open>position.x \<le> WINDOW_WIDTH - radius\<close>. This
  fails for a projectile constructed with radius 0: \<open>update\<close> never assigns \<open>radius\<close>.
\<close>

theorem update_invariants_counterexample:
  "\<not> (0 < radius (update \<lparr>position = \<lparr>x = 100, y = 100\<rparr>, velocity = \<lparr>x = 0, y = 0\<rparr>,
                          radius = 0, active = True, timeAlive = 0\<rparr> 0) \<and>
      radius (update \<lparr>position = \<lparr>x = 100, y = 100\<rparr>, velocity = \<lparr>x = 0, y = 0\<rparr>,
                          radius = 0, active = True, timeAlive = 0\<rparr> 0)
        \<le> y (position (update \<lparr>position = \<lparr>x = 100, y = 100\<rparr>, velocity = \<lparr>x = 0, y = 0\<rparr>,
                          radius = 0, active = True, timeAlive = 0\<rparr> 0)) \<and>
      x (position (update \<lparr>position = \<lparr>x = 100, y = 100\<rparr>, velocity = \<lparr>x = 0, y = 0\<rparr>,
                          radius = 0, active = True, timeAlive = 0\<rparr> 0))
        \<le> real_of_int WINDOW_WIDTH
            - radius (update \<lparr>position = \<lparr>x = 100, y = 100\<rparr>, velocity = \<lparr>x = 0, y = 0\<rparr>,
                          radius = 0, active = True, timeAlive = 0\<rparr> 0))"
  by (simp add: update_integrate integrate_fields ground_collision_def wall_collision_def
      WINDOW_WIDTH_def)

lemma ground_collision_floor: "radius q \<le> y (position (ground_collision q))"
  by (simp add: ground_collision_def Let_def)

lemma wall_collision_clamp:
  "x (position (wall_collision q)) \<le> real_of_int WINDOW_WIDTH - radius q"
  by (simp add: wall_collision_def Let_def)

lemma update_radius: "radius (update p deltaTime) = radius p"
  by (simp add: update_integrate wall_collision_keeps ground_collision_keeps integrate_fields)

text \<open>
  C7, amended. \<open>update\<close> leaves \<open>radius\<close> as it is, so \<open>radius > 0\<close> holds after the call
  when it held before; \<open>position.y \<ge> radius\<close> and \<open>position.x \<le> WINDOW_WIDTH - radius\<close>
  hold after every call of \<open>update\<close>, whatever the state before. \<open>step\<close> leaves every
  radius as it is and gives the two bounds on the position for every projectile that is
  active before the call, the only ones it updates, whatever their radius.
\<close>

theorem update_invariants:
  "radius (update p deltaTime) = radius p \<and>
   (0 < radius p \<longrightarrow> 0 < radius (update p deltaTime)) \<and>
   radius (update p deltaTime) \<le> y (position (update p deltaTime)) \<and>
   x (position (update p deltaTime)) \<le> real_of_int WINDOW_WIDTH - radius (update p deltaTime) \<and>
   (i < length ps \<longrightarrow> radius (step deltaTime ps ! i) = radius (ps ! i)) \<and>
   (i < length ps \<and> active (ps ! i) \<longrightarrow>
      radius (step deltaTime ps ! i) \<le> y (position (step deltaTime ps ! i)) \<and>
      x (position (step deltaTime ps ! i))
        \<le> real_of_int WINDOW_WIDTH - radius (step deltaTime ps ! i)) \<and>
   (i < length ps \<and> 0 < radius (ps ! i) \<longrightarrow> 0 < radius (step deltaTime ps ! i))"
proof -
  have r: "radius (update p deltaTime) = radius p" for p
    by (rule update_radius)
  have f: "radius (update p deltaTime) \<le> y (position (update p deltaTime))" for p
    using ground_collision_floor [of "integrate deltaTime p"]
    by (simp add: update_integrate wall_collision_keeps ground_collision_keeps)
  have c: "x (position (update p deltaTime))
      \<le> real_of_int WINDOW_WIDTH - radius (update p deltaTime)" for p
    using wall_collision_clamp [of "ground_collision (integrate deltaTime p)"]
    by (simp add: update_integrate wall_collision_keeps)
  show ?thesis
    using r f c by (simp add: step_nth)
qed

theorem update_invariants_witness:
  "radius (step (1/2) [\<lparr>position = \<lparr>x = 794, y = 6\<rparr>, velocity = \<lparr>x = 10, y = - 10\<rparr>,
            radius = 5, active = True, timeAlive = 0\<rparr>] ! 0) = 5 \<and>
   5 \<le> y (position (step (1/2) [\<lparr>position = \<lparr>x = 794, y = 6\<rparr>, velocity = \<lparr>x = 10, y = - 10\<rparr>,
            radius = 5, active = True, timeAlive = 0\<rparr>] ! 0)) \<and>
   x (position (step (1/2) [\<lparr>position = \<lparr>x = 794, y = 6\<rparr>, velocity = \<lparr>x = 10, y = - 10\<rparr>,
            radius = 5, active = True, timeAlive = 0\<rparr>] ! 0)) \<le> 795 \<and>
   radius (step 1 [\<lparr>position = \<lparr>x = 900, y = - 3\<rparr>, velocity = \<lparr>x = 0, y = 0\<rparr>,
            radius = 0, active = True, timeAlive = 0\<rparr>] ! 0) = 0 \<and>
   0 \<le> y (position (step 1 [\<lparr>position = \<lparr>x = 900, y = - 3\<rparr>, velocity = \<lparr>x = 0, y = 0\<rparr>,
            radius = 0, active = True, timeAlive = 0\<rparr>] ! 0)) \<and>
   x (position (step 1 [\<lparr>position = \<lparr>x = 900, y = - 3\<rparr>, velocity = \<lparr>x = 0, y = 0\<rparr>,
            radius = 0, active = True, timeAlive = 0\<rparr>] ! 0)) \<le> 800"
  using update_invariants [of
      "\<lparr>position = \<lparr>x = 794, y = 6\<rparr>, velocity = \<lparr>x = 10, y = - 10\<rparr>,
            radius = 5, active = True, timeAlive = 0\<rparr>" "1/2" 0
      "[\<lparr>position = \<lparr>x = 794, y = 6\<rparr>, velocity = \<lparr>x = 10, y = - 10\<rparr>,
            radius = 5, active = True, timeAlive = 0\<rparr>]"]
    update_invariants [of
      "\<lparr>position = \<lparr>x = 900, y = - 3\<rparr>, velocity = \<lparr>x = 0, y = 0\<rparr>,
            radius = 0, active = True, timeAlive = 0\<rparr>" 1 0
      "[\<lparr>position = \<lparr>x = 900, y = - 3\<rparr>, velocity = \<lparr>x = 0, y = 0\<rparr>,
            radius = 0, active = True, timeAlive = 0\<rparr>]"]
  by (simp add: WINDOW_WIDTH_def)

subsection \<open>A step of no time\<close>

text \<open>
  C8, as stated: \<open>step\<close> with \<open>deltaTime = 0\<close> changes no projectile. This fails for an
  active projectile that touches the ground (\<open>position.y = radius\<close>): the ground test runs
  whatever \<open>deltaTime\<close> is, so the velocity is halved and its vertical part reversed.
\<close>

theorem step_zero_counterexample:
  "\<not> (position (step 0 [\<lparr>position = \<lparr>x = 100, y = 5\<rparr>, velocity = \<lparr>x = 10, y = 4\<rparr>,
                          radius = 5, active = True, timeAlive = 0\<rparr>] ! 0) = \<lparr>x = 100, y = 5\<rparr> \<and>
      velocity (step 0 [\<lparr>position = \<lparr>x = 100, y = 5\<rparr>, velocity = \<lparr>x = 10, y = 4\<rparr>,
                          radius = 5, active = True, timeAlive = 0\<rparr>] ! 0) = \<lparr>x = 10, y = 4\<rparr> \<and>
      timeAlive (step 0 [\<lparr>position = \<lparr>x = 100, y = 5\<rparr>, velocity = \<lparr>x = 10, y = 4\<rparr>,
                          radius = 5, active = True, timeAlive = 0\<rparr>] ! 0) = 0 \<and>
      active (step 0 [\<lparr>position = \<lparr>x = 100, y = 5\<rparr>, velocity = \<lparr>x = 10, y = 4\<rparr>,
                          radius = 5, active = True, timeAlive = 0\<rparr>] ! 0) = True)"
  by (simp add: step_def update_integrate integrate_fields ground_collision_def
      wall_collision_def WINDOW_WIDTH_def vec2_scale_def length_vec2_def)

lemma integrate_zero: "integrate 0 p = p"
  by (simp add: integrate_fields)

text \<open>
  C8, amended. With \<open>deltaTime = 0\<close> the integration changes nothing and \<open>update\<close> is
  the ground test followed by the wall test: \<open>timeAlive\<close> is unchanged, and a projectile
  with \<open>position.y > radius\<close> and \<open>position.x < WINDOW_WIDTH - radius\<close> is left exactly as it
  was. No step of the model divides. The projectile fired with angle 45 and power 50 from
  the cannon at \<open>(50, 50)\<close> is left by \<open>step 0\<close> exactly as it was fired, so its position
  is its spawn position.
\<close>

theorem step_zero:
  "update p 0 = wall_collision (ground_collision p) \<and>
   timeAlive (update p 0) = timeAlive p \<and>
   (radius p < y (position p) \<and> x (position p) < real_of_int WINDOW_WIDTH - radius p \<longrightarrow>
      update p 0 = p) \<and>
   (radius p < y (position p) \<and> x (position p) < real_of_int WINDOW_WIDTH - radius p \<and>
    i < length ps \<and> ps ! i = p \<longrightarrow> step 0 ps ! i = p) \<and>
   (cannonAngle w = 45 \<and> cannonPower w = 50 \<and> cannonPosition w = \<lparr>x = 50, y = 50\<rparr> \<longrightarrow>
      last (step 0 (projectiles (fireProjectile w))) = last (projectiles (fireProjectile w)))"
proof -
  have u: "update p 0 = wall_collision (ground_collision p)" for p
    by (simp add: update_integrate integrate_zero)
  have n: "update p 0 = p"
    if "radius p < y (position p) \<and> x (position p) < real_of_int WINDOW_WIDTH - radius p" for p
    using that by (simp add: u ground_collision_def wall_collision_def)
  have t: "timeAlive (update p 0) = timeAlive p"
    by (simp add: u wall_collision_keeps ground_collision_keeps)
  have s: "step 0 ps ! i = p"
    if "radius p < y (position p) \<and> x (position p) < real_of_int WINDOW_WIDTH - radius p"
      and "i < length ps" and "ps ! i = p"
    using that n [of p] by (simp add: step_nth)
  have f: "last (step 0 (projectiles (fireProjectile w))) = last (projectiles (fireProjectile w))"
    if "cannonAngle w = 45 \<and> cannonPower w = 50 \<and> cannonPosition w = \<lparr>x = 50, y = 50\<rparr>"
  proof -
    define t where "t = cannonAngle w * PI / 180"
    define b where "b = last (projectiles (fireProjectile w))"
    have b: "b = \<lparr>position = \<lparr>x = 50 + 40 * cos t, y = 50 + 40 * sin t\<rparr>,
                    velocity = \<lparr>x = 50 * cos t, y = 50 * sin t\<rparr>,
                    radius = 5, active = True, timeAlive = 0\<rparr>"
      using that
      by (simp add: b_def t_def fireProjectile_def Let_def Projectile_new_def
          insert_projectile_def)
    have "0 < 45 + 40 * sin t"
      using sin_ge_minus_one [of t] by linarith
    moreover have "8 * cos t < 149"
      using cos_le_one [of t] by linarith
    ultimately
    have "radius b < y (position b) \<and> x (position b) < real_of_int WINDOW_WIDTH - radius b"
      by (simp add: b WINDOW_WIDTH_def)
    then have "update b 0 = b"
      by (rule n)
    moreover have "last (step 0 (projectiles (fireProjectile w))) = update b 0"
      by (simp add: b_def step_def fireProjectile_def Let_def insert_projectile_def
          Projectile_new_def)
    ultimately show ?thesis
      by (simp add: b_def)
  qed
  show ?thesis
    using u t n s f by blast
qed

theorem step_zero_witness:
  "step 0 [\<lparr>position = \<lparr>x = 100, y = 100\<rparr>, velocity = \<lparr>x = 10, y = 4\<rparr>,
            radius = 5, active = True, timeAlive = 1\<rparr>] ! 0 =
     \<lparr>position = \<lparr>x = 100, y = 100\<rparr>, velocity = \<lparr>x = 10, y = 4\<rparr>,
      radius = 5, active = True, timeAlive = 1\<rparr> \<and>
   last (step 0 (projectiles (fireProjectile initial_world))) =
     last (projectiles (fireProjectile initial_world))"
  using step_zero [of
      "\<lparr>position = \<lparr>x = 100, y = 100\<rparr>, velocity = \<lparr>x = 10, y = 4\<rparr>,
        radius = 5, active = True, timeAlive = 1\<rparr>" 0
      "[\<lparr>position = \<lparr>x = 100, y = 100\<rparr>, velocity = \<lparr>x = 10, y = 4\<rparr>,
         radius = 5, active = True, timeAlive = 1\<rparr>]" initial_world]
  by (simp add: initial_world_def WINDOW_WIDTH_def)

subsection \<open>Settling\<close>

lemma length_vec2_half:
  "length_vec2 \<lparr>x = 0.5 * a, y = 0.5 * b\<rparr> < 1 \<longleftrightarrow> length_vec2 \<lparr>x = a, y = b\<rparr> < 2"
proof -
  have "sqrt (a * a + b * b) < 2 \<longleftrightarrow> sqrt (a * a + b * b) < sqrt 4"
    by simp
  also have "\<dots> \<longleftrightarrow> a * a + b * b < 4"
    by (rule real_sqrt_less_iff)
  also have "\<dots> \<longleftrightarrow> a * a / 4 + b * b / 4 < 1"
    by argo
  finally show ?thesis
    by (simp add: length_vec2_def)
qed

lemma post_gravity_speed:
  assumes "length_vec2 \<lparr>x = a, y = b\<rparr> < 1" and "b < 0" and "0 < g" and "g \<le> 0.981"
  shows "length_vec2 \<lparr>x = a, y = b - g\<rparr> < 2"
proof -
  have s: "a * a + b * b < 1"
    using assms(1) by (simp add: length_vec2_def)
  have "b * b < 1"
    using s zero_le_square [of a] by linarith
  have b: "- 1 < b"
  proof (rule ccontr)
    assume "\<not> - 1 < b"
    then have "1 * 1 \<le> (- b) * (- b)"
      by (intro mult_mono) simp_all
    then show False
      using \<open>b * b < 1\<close> by simp
  qed
  have "g * (g - 2 * b) \<le> 0.981 * (g - 2 * b)"
    using assms(2,3,4) by (intro mult_right_mono) simp_all
  also have "\<dots> < 0.981 * 2.981"
    using b assms(4) by simp
  finally have "g * (g - 2 * b) < 3" by simp
  moreover have "a * a + (b - g) * (b - g) = (a * a + b * b) + g * (g - 2 * b)"
    by (simp add: algebra_simps)
  ultimately have "a * a + (b - g) * (b - g) < 4"
    using s by linarith
  then have "sqrt (a * a + (b - g) * (b - g)) < sqrt 4"
    by (simp only: real_sqrt_less_iff)
  then show ?thesis
    by (simp add: length_vec2_def)
qed

text \<open>
  C9, as stated: for every positive \<open>deltaTime\<close>, a projectile with \<open>position.y = radius\<close>
  and a downward velocity of magnitude 0.5 is inactive after one step. This fails for
  \<open>deltaTime = 1\<close>: gravity is applied before the test, the velocity tested is
  \<open>(0, - 10.31) / 2\<close>, and the projectile bounces and stays active.
\<close>

theorem settle_counterexample:
  "\<not> (active (step 1 [\<lparr>position = \<lparr>x = 100, y = 5\<rparr>, velocity = \<lparr>x = 0, y = - 0.5\<rparr>,
                           radius = 5, active = True, timeAlive = 0\<rparr>] ! 0) = False)"
  by (simp add: step_def update_integrate integrate_fields GRAVITY_def ground_collision_def
      wall_collision_def WINDOW_WIDTH_def vec2_scale_def length_vec2_def)

text \<open>
  C9, amended. Let an active projectile have \<open>position.y = radius\<close> and a downward velocity
  of magnitude below 1, and let \<open>deltaTime > 0\<close>. After one step it is inactive exactly when
  the velocity after the gravity update, \<open>(velocity.x, velocity.y - GRAVITY * deltaTime)\<close>,
  has magnitude below 2, that is, when its half has magnitude below 1. This is the case for
  every \<open>deltaTime \<le> 0.1\<close>.
\<close>

theorem settle_on_ground:
  assumes "0 < deltaTime" and "i < length ps" and "ps ! i = p" and "active p"
    and "y (position p) = radius p" and "y (velocity p) < 0"
    and "length_vec2 (velocity p) < 1"
  shows "active (step deltaTime ps ! i) =
       (\<not> length_vec2 \<lparr>x = x (velocity p), y = y (velocity p) - GRAVITY * deltaTime\<rparr> < 2) \<and>
     (deltaTime \<le> 0.1 \<longrightarrow> \<not> active (step deltaTime ps ! i))"
proof -
  define q where "q = integrate deltaTime p"
  have g: "0 < GRAVITY * deltaTime"
    using assms(1) by (simp add: GRAVITY_def)
  have v: "velocity q = \<lparr>x = x (velocity p), y = y (velocity p) - GRAVITY * deltaTime\<rparr>"
    by (simp add: q_def integrate_fields)
  have "(y (velocity p) - GRAVITY * deltaTime) * deltaTime < 0"
    using assms(1,6) g by (intro mult_neg_pos) simp_all
  then have h: "y (position q) \<le> radius q"
    using assms(5) by (simp add: q_def integrate_fields)
  have s: "step deltaTime ps ! i = wall_collision (ground_collision q)"
    using assms(2,3,4) by (simp add: step_nth update_integrate q_def)
  have "active q"
    using assms(4) by (simp add: q_def integrate_fields)
  then have a: "active (step deltaTime ps ! i) =
      (\<not> length_vec2 \<lparr>x = 0.5 * x (velocity q), y = 0.5 * y (velocity q)\<rparr> < 1)"
    unfolding s by (simp add: wall_collision_keeps ground_collision_hit [OF h])
  have e: "active (step deltaTime ps ! i) =
       (\<not> length_vec2 \<lparr>x = x (velocity p), y = y (velocity p) - GRAVITY * deltaTime\<rparr> < 2)"
    unfolding a length_vec2_half by (simp add: v)
  have "length_vec2 \<lparr>x = x (velocity p), y = y (velocity p) - GRAVITY * deltaTime\<rparr> < 2"
    if "deltaTime \<le> 0.1"
  proof (rule post_gravity_speed)
    show "length_vec2 \<lparr>x = x (velocity p), y = y (velocity p)\<rparr> < 1"
      using assms(7) by (simp add: length_vec2_def)
    show "y (velocity p) < 0" by (rule assms(6))
    show "0 < GRAVITY * deltaTime" by (rule g)
    show "GRAVITY * deltaTime \<le> 0.981"
      using that by (simp add: GRAVITY_def)
  qed
  then show ?thesis
    using e by simp
qed

theorem settle_on_ground_witness:
  "\<not> active (step (1/64) [\<lparr>position = \<lparr>x = 100, y = 5\<rparr>, velocity = \<lparr>x = 0, y = - 0.5\<rparr>,
                           radius = 5, active = True, timeAlive = 0\<rparr>] ! 0)"
proof -
  let ?p = "\<lparr>position = \<lparr>x = 100, y = 5\<rparr>, velocity = \<lparr>x = 0, y = - 0.5\<rparr>,
             radius = 5, active = True, timeAlive = 0\<rparr>"
  have "(1/64::real) \<le> 0.1 \<longrightarrow> \<not> active (step (1/64) [?p] ! 0)"
    by (rule conjunct2 [OF settle_on_ground [of "1/64" 0 "[?p]" ?p]])
      (simp_all add: length_vec2_def)
  then show ?thesis
    by simp
qed

subsection \<open>The active flag\<close>

lemma ground_collision_active:
  "active (ground_collision q) =
     (active q \<and> \<not> (y (position q) \<le> radius q \<and>
        length_vec2 (vec2_scale (velocity q) 0.5) < 1))"
  by (simp add: ground_collision_def Let_def)

lemma update_active:
  "active (update p deltaTime) =
     (active p \<and> \<not> (y (position (integrate deltaTime p)) \<le> radius p \<and>
        length_vec2 (vec2_scale (velocity (integrate deltaTime p)) 0.5) < 1))"
  by (simp add: update_integrate wall_collision_keeps ground_collision_active integrate_fields)

text \<open>
  C10. No operation turns an inactive projectile into an active one: \<open>update\<close> never sets
  the flag to true; \<open>step\<close> keeps the length of the collection and leaves an inactive
  projectile exactly as it is; \<^verbatim>\<open>push_back\<close> leaves the projectiles already in the
  collection as they are; every projectile that \<open>prune\<close> keeps is one of the collection,
  unchanged. (The drawing functions take the collection by constant reference and are not
  part of the model.) \<open>update\<close> makes an active projectile inactive only when, after the
  integration, \<open>position.y \<le> radius\<close> and the halved velocity has length below 1; the wall
  test never changes the flag, and without ground contact the flag is unchanged.
\<close>

theorem active_only_falls:
  "(active (update p deltaTime) \<longrightarrow> active p) \<and>
   (i < length ps \<and> active (step deltaTime ps ! i) \<longrightarrow> active (ps ! i)) \<and>
   (i < length ps \<and> \<not> active (ps ! i) \<longrightarrow> step deltaTime ps ! i = ps ! i) \<and>
   length (step deltaTime ps) = length ps \<and>
   (i < length ps \<longrightarrow> insert_projectile p ps ! i = ps ! i) \<and>
   set (prune ps) \<subseteq> set ps \<and>
   (active p \<and> \<not> active (update p deltaTime) \<longrightarrow>
      y (position (integrate deltaTime p)) \<le> radius p \<and>
      length_vec2 (vec2_scale (velocity (integrate deltaTime p)) 0.5) < 1) \<and>
   active (wall_collision q) = active q \<and>
   (\<not> y (position (integrate deltaTime p)) \<le> radius p \<longrightarrow>
      active (update p deltaTime) = active p)"
proof -
  have c1: "set (prune ps) \<subseteq> set ps"
    by (simp add: prune_def remove_if_filter)
  have c2: "i < length ps \<longrightarrow> insert_projectile p ps ! i = ps ! i"
    by (simp add: insert_projectile_def nth_append)
  have c3: "step deltaTime ps ! i = ps ! i" if "i < length ps" and "\<not> active (ps ! i)"
    using that by (simp add: step_nth)
  have c4: "active (ps ! i)" if "i < length ps" and "active (step deltaTime ps ! i)"
  proof (rule ccontr)
    assume n: "\<not> active (ps ! i)"
    then have "step deltaTime ps ! i = ps ! i"
      using that(1) by (rule c3 [rotated])
    then show False
      using that(2) n by simp
  qed
  have c5: "active (update p deltaTime) =
     (active p \<and> \<not> (y (position (integrate deltaTime p)) \<le> radius p \<and>
        length_vec2 (vec2_scale (velocity (integrate deltaTime p)) 0.5) < 1))"
    by (rule update_active)
  have c6: "active (wall_collision q) = active q"
    by (simp add: wall_collision_keeps)
  show ?thesis
    using c1 c2 c3 c4 c5 c6 length_step [of deltaTime ps] by blast
qed

theorem active_only_falls_witness:
  "active (update \<lparr>position = \<lparr>x = 796, y = 100\<rparr>, velocity = \<lparr>x = 10, y = 0\<rparr>,
                   radius = 5, active = True, timeAlive = 0\<rparr> 1) \<and>
   step 1 [\<lparr>position = \<lparr>x = 100, y = 5\<rparr>, velocity = \<lparr>x = 1, y = 0\<rparr>,
            radius = 5, active = False, timeAlive = 0\<rparr>] ! 0 =
     \<lparr>position = \<lparr>x = 100, y = 5\<rparr>, velocity = \<lparr>x = 1, y = 0\<rparr>,
            radius = 5, active = False, timeAlive = 0\<rparr>"
  using active_only_falls [of
      "\<lparr>position = \<lparr>x = 796, y = 100\<rparr>, velocity = \<lparr>x = 10, y = 0\<rparr>,
                   radius = 5, active = True, timeAlive = 0\<rparr>" 1 0
      "[\<lparr>position = \<lparr>x = 100, y = 5\<rparr>, velocity = \<lparr>x = 1, y = 0\<rparr>,
            radius = 5, active = False, timeAlive = 0\<rparr>]"]
  by (simp add: integrate_fields GRAVITY_def)

subsection \<open>The aim stays in range\<close>

lemma processInput_aim_in_range:
  assumes "aim_in_range w"
  shows "aim_in_range (processInput ks w)"
  using assms by (auto simp: aim_in_range_def processInput_def Let_def)

lemma run_inputs_aim_in_range:
  "aim_in_range w \<Longrightarrow> aim_in_range (run_inputs kss w)"
  by (induction kss arbitrary: w) (simp_all add: processInput_aim_in_range)

lemma initial_world_aim_in_range: "aim_in_range initial_world"
  by (simp add: aim_in_range_def initial_world_def)

text \<open>
  C6. From the initial aim (angle 45, power 50), after any sequence of calls of
  \<^verbatim>\<open>processInput\<close>, whatever keys are pressed in each, the angle lies in \<open>[0, 90]\<close> and
  the power in \<open>[10, 100]\<close>. Every call returns a state: an adjustment that would leave the
  range is clamped, none is rejected.
\<close>

theorem aim_stays_in_range:
  "cannonAngle initial_world = 45 \<and> cannonPower initial_world = 50 \<and>
   0 \<le> cannonAngle (run_inputs kss initial_world) \<and>
   cannonAngle (run_inputs kss initial_world) \<le> 90 \<and>
   10 \<le> cannonPower (run_inputs kss initial_world) \<and>
   cannonPower (run_inputs kss initial_world) \<le> 100"
proof -
  have "aim_in_range (run_inputs kss initial_world)"
    by (rule run_inputs_aim_in_range [OF initial_world_aim_in_range])
  then show ?thesis
    by (simp add: aim_in_range_def initial_world_def)
qed

theorem aim_stays_in_range_witness:
  "cannonAngle (run_inputs
     [\<lparr>KEY_UP = True, KEY_DOWN = False, KEY_RIGHT = False, KEY_LEFT = True\<rparr>,
      \<lparr>KEY_UP = True, KEY_DOWN = False, KEY_RIGHT = False, KEY_LEFT = True\<rparr>] initial_world) = 47 \<and>
   cannonPower (run_inputs
     [\<lparr>KEY_UP = True, KEY_DOWN = False, KEY_RIGHT = False, KEY_LEFT = True\<rparr>,
      \<lparr>KEY_UP = True, KEY_DOWN = False, KEY_RIGHT = False, KEY_LEFT = True\<rparr>] initial_world) = 48 \<and>
   cannonAngle (run_inputs
     [\<lparr>KEY_UP = True, KEY_DOWN = False, KEY_RIGHT = False, KEY_LEFT = True\<rparr>,
      \<lparr>KEY_UP = True, KEY_DOWN = False, KEY_RIGHT = False, KEY_LEFT = True\<rparr>] initial_world) \<le> 90"
  using aim_stays_in_range
    [of "[\<lparr>KEY_UP = True, KEY_DOWN = False, KEY_RIGHT = False, KEY_LEFT = True\<rparr>,
          \<lparr>KEY_UP = True, KEY_DOWN = False, KEY_RIGHT = False, KEY_LEFT = True\<rparr>]"]
  by (simp add: processInput_def initial_world_def)

end
